theory Spec2Isabelle
  imports Main "HOL-Library.Word" "HOL-Library.AList"
begin

unbundle bit_operations_syntax

section \<open>gridd message handlers: data model\<close>

text \<open>
  The embedding follows \<^verbatim>\<open>gridd/main/message_handler.c\<close>. GLib's fixed-width integers
  are words: \<^verbatim>\<open>gint\<close>, \<^verbatim>\<open>guint\<close> and \<^verbatim>\<open>guint32\<close> have 32 bits, \<^verbatim>\<open>gsize\<close> has 64.
  A \<^verbatim>\<open>gint\<close> is read with \<open>sint\<close> and compared with \<open><s\<close>. A pointer that may be \<^verbatim>\<open>NULL\<close>
  is an \<open>option\<close>; a C string is a \<open>string\<close>, whose \<^verbatim>\<open>strlen\<close> is its length.
\<close>

type_synonym gint = "32 word"
type_synonym guint = "32 word"
type_synonym guint32 = "32 word"
type_synonym gsize = "64 word"
type_synonym guint8 = "8 word"

text \<open>GLib's \<^verbatim>\<open>GError\<close> and the \<^verbatim>\<open>GError **\<close> out-parameter: the caller passes no slot
  (\<^verbatim>\<open>NULL\<close>), or a slot that holds no error or one error.\<close>

record GError =
  err_code :: gint
  err_message :: string

datatype gerror_ptr = Err_null | Err_slot "GError option"

text \<open>\<^verbatim>\<open>g_prefix_error\<close> (GLib): nothing happens without a slot or without an error in
  it; otherwise the prefix is put in front of the error's message.\<close>

fun g_prefix_error :: "gerror_ptr \<Rightarrow> string \<Rightarrow> gerror_ptr" where
  "g_prefix_error Err_null p = Err_null"
| "g_prefix_error (Err_slot None) p = Err_slot None"
| "g_prefix_error (Err_slot (Some e)) p = Err_slot (Some (e\<lparr>err_message := p @ err_message e\<rparr>))"

text \<open>GLib's \<^verbatim>\<open>GByteArray\<close>: a data pointer and a \<^verbatim>\<open>guint\<close> length.\<close>

record GByteArray =
  data :: "guint8 list option"
  len :: guint

definition g_byte_array_new :: GByteArray where
  "g_byte_array_new = \<lparr>data = None, len = 0\<rparr>"

text \<open>\<^verbatim>\<open>g_byte_array_append (array, data, len)\<close> takes its length as a \<^verbatim>\<open>guint\<close> and
  copies that many bytes behind the array's content.\<close>

definition g_byte_array_append :: "GByteArray \<Rightarrow> guint8 list \<Rightarrow> guint \<Rightarrow> GByteArray" where
  "g_byte_array_append arr v n =
     (if n = 0 then arr
      else \<lparr>data = Some ((case data arr of None \<Rightarrow> [] | Some d \<Rightarrow> d) @ take (unat n) v),
            len = len arr + n\<rparr>)"

text \<open>A \<^verbatim>\<open>GHashTable\<close> with string keys is an association list with one entry for each
  key; \<^verbatim>\<open>g_hash_table_insert\<close> replaces the value of a key that is present
  (\<open>AList.update\<close>). The order of the entries stands for the table's iteration order,
  which GLib leaves open.\<close>

type_synonym GHashTable = "(string \<times> GByteArray) list"

definition g_hash_table_new_full :: GHashTable where
  "g_hash_table_new_full = []"

definition g_hash_table_insert :: "GHashTable \<Rightarrow> string \<Rightarrow> GByteArray \<Rightarrow> GHashTable" where
  "g_hash_table_insert t k v = AList.update k v t"

definition g_hash_table_foreach ::
  "GHashTable \<Rightarrow> (string option \<Rightarrow> GByteArray option \<Rightarrow> 'u \<Rightarrow> 'u) \<Rightarrow> 'u \<Rightarrow> 'u" where
  "g_hash_table_foreach t f u = fold (\<lambda>e. f (Some (fst e)) (Some (snd e))) t u"

subsection \<open>Request and reply contexts\<close>

text \<open>\<^verbatim>\<open>struct timeval\<close>, as seconds and microseconds.\<close>

type_synonym timeval = "int \<times> int"

text \<open>\<^verbatim>\<open>struct request_context_s\<close>. The two address records are pointers into the store
  of allocated blocks (an address, \<open>0\<close> for \<^verbatim>\<open>NULL\<close>); \<open>'m\<close> is the type of an inbound
  \<^verbatim>\<open>MESSAGE\<close>.\<close>

record 'm request_context_s =
  tv_start :: timeval
  local_addr :: nat
  remote_addr :: nat
  fd :: gint
  request :: "'m option"

record header_s =
  code :: gint
  msg :: "string option"

record body_s =
  buffer :: "guint8 list option"
  size_b :: gsize
  copy :: guint32

text \<open>\<^verbatim>\<open>struct reply_context_s\<close>; \<open>req_ctx\<close> is the request context the reply is bound to.\<close>

record 'm reply_context_s =
  req_ctx :: "'m request_context_s"
  extra_headers :: "GHashTable option"
  warning :: "GError option"
  header :: header_s
  body :: body_s

text \<open>What \<^verbatim>\<open>memset (&x, 0, sizeof x)\<close> leaves in the two inner structures.\<close>

definition header_zero :: header_s where
  "header_zero = \<lparr>code = 0, msg = None\<rparr>"

definition body_zero :: body_s where
  "body_zero = \<lparr>buffer = None, size_b = 0, copy = 0\<rparr>"

text \<open>Modelled from the spec: the outbound \<^verbatim>\<open>MESSAGE\<close> and its three builders
  \<^verbatim>\<open>metaXServer_reply_simple\<close>, \<^verbatim>\<open>metautils_message_add_field\<close> and
  \<^verbatim>\<open>metautils_message_set_BODY\<close> belong to metautils, which is not under src/. The reply
  template is built from the inbound request, the status code and the message; named
  byte-valued headers and a binary body are attached to it.\<close>

record 'm reply_message =
  in_reply_to :: "'m option"
  reply_status :: gint
  reply_msg :: string
  reply_fields :: "(string \<times> guint8 list) list"
  reply_body :: "guint8 list option"

definition metaXServer_reply_simple :: "'m option \<Rightarrow> gint \<Rightarrow> string \<Rightarrow> 'm reply_message" where
  "metaXServer_reply_simple req c m =
     \<lparr>in_reply_to = req, reply_status = c, reply_msg = m, reply_fields = [], reply_body = None\<rparr>"

definition metautils_message_add_field ::
  "'m reply_message \<Rightarrow> string \<Rightarrow> guint8 list \<Rightarrow> guint \<Rightarrow> 'm reply_message" where
  "metautils_message_add_field answer k d n =
     answer\<lparr>reply_fields := reply_fields answer @ [(k, take (unat n) d)]\<rparr>"

definition metautils_message_set_BODY ::
  "'m reply_message \<Rightarrow> guint8 list \<Rightarrow> gsize \<Rightarrow> 'm reply_message" where
  "metautils_message_set_BODY answer b n = answer\<lparr>reply_body := Some (take (unat n) b)\<rparr>"

text \<open>The calls a function makes to the allocator and to its collaborators are returned
  as a list of effects, in the order of the calls.\<close>

datatype 'm effect =
    G_free_msg string
  | G_free_body "guint8 list"
  | G_error_free GError
  | G_hash_table_destroy GHashTable
  | Marshall "'m reply_message option"
  | Sock_to_write gint gint "guint8 list option" gsize
  | G_byte_array_unref GByteArray

section \<open>Reply management\<close>

text \<open>The macros \<^verbatim>\<open>REPLYCTX_CLEANHEADER\<close> and \<^verbatim>\<open>REPLYCTX_CLEANBODY\<close>.\<close>

definition REPLYCTX_CLEANHEADER :: "'m reply_context_s \<Rightarrow> 'm reply_context_s \<times> 'm effect list" where
  "REPLYCTX_CLEANHEADER ctx =
     (ctx\<lparr>header := header_zero\<rparr>,
      (case msg (header ctx) of Some m \<Rightarrow> [G_free_msg m] | None \<Rightarrow> []))"

definition REPLYCTX_CLEANBODY :: "'m reply_context_s \<Rightarrow> 'm reply_context_s \<times> 'm effect list" where
  "REPLYCTX_CLEANBODY ctx =
     (ctx\<lparr>body := body_zero\<rparr>,
      (case buffer (body ctx) of
         Some b \<Rightarrow> (if copy (body ctx) \<noteq> 0 then [G_free_body b] else [])
       | None \<Rightarrow> []))"

definition reply_context_clear ::
  "'m reply_context_s option \<Rightarrow> bool \<Rightarrow> 'm reply_context_s option \<times> 'm effect list" where
  "reply_context_clear ctxp all =
     (case ctxp of
        None \<Rightarrow> (None, [])
      | Some ctx \<Rightarrow>
          (let (ctx1, fx1) =
                 (if all then
                    (let fxw = (case warning ctx of Some w \<Rightarrow> [G_error_free w] | None \<Rightarrow> []);
                         fxh = (case extra_headers ctx of
                                  Some t \<Rightarrow> [G_hash_table_destroy t] | None \<Rightarrow> [])
                     in (ctx\<lparr>warning := None, extra_headers := None\<rparr>, fxw @ fxh))
                  else (ctx, []));
               (ctx2, fx2) = REPLYCTX_CLEANHEADER ctx1;
               (ctx3, fx3) = REPLYCTX_CLEANBODY ctx2
           in (Some ctx3, fx1 @ fx2 @ fx3)))"

definition reply_context_set_message ::
  "'m reply_context_s option \<Rightarrow> gint \<Rightarrow> string option \<Rightarrow> 'm reply_context_s option \<times> 'm effect list" where
  "reply_context_set_message ctxp c m =
     (case ctxp of
        None \<Rightarrow> (None, [])
      | Some ctx \<Rightarrow>
          (let (ctx1, fx1) = REPLYCTX_CLEANHEADER ctx
           in (Some (ctx1\<lparr>header := (header ctx1)\<lparr>code := c, msg := m\<rparr>\<rparr>), fx1)))"

text \<open>\<^verbatim>\<open>g_memdup (mem, byte_size)\<close> (GLib) takes its size as a \<^verbatim>\<open>guint\<close>: it returns
  \<^verbatim>\<open>NULL\<close> when there is no memory or the size is zero, and a copy of that many bytes
  otherwise.\<close>

definition g_memdup :: "guint8 list option \<Rightarrow> guint \<Rightarrow> guint8 list option" where
  "g_memdup mem byte_size =
     (case mem of
        None \<Rightarrow> None
      | Some b \<Rightarrow> (if byte_size = 0 then None else Some (take (unat byte_size) b)))"

text \<open>\<^verbatim>\<open>reply_context_set_body\<close>. The flag bits \<^verbatim>\<open>REPLYCTX_DESTROY_ON_CLEAN\<close> and
  \<^verbatim>\<open>REPLYCTX_COPY\<close> are declared in a header that is not under src/, so they are the
  first two arguments.\<close>

definition reply_context_set_body ::
  "guint32 \<Rightarrow> guint32 \<Rightarrow> 'm reply_context_s option \<Rightarrow> guint8 list option \<Rightarrow> gsize \<Rightarrow> guint32
     \<Rightarrow> 'm reply_context_s option \<times> 'm effect list" where
  "reply_context_set_body REPLYCTX_DESTROY_ON_CLEAN REPLYCTX_COPY ctxp bodyp bodySize flags =
     (case ctxp of
        None \<Rightarrow> (None, [])
      | Some ctx \<Rightarrow>
          (let (ctx1, fx1) = REPLYCTX_CLEANBODY ctx
           in case bodyp of
                None \<Rightarrow> (Some ctx1, fx1)
              | Some b \<Rightarrow>
                  (if bodySize > 0 then
                     (Some (ctx1\<lparr>body :=
                        \<lparr>buffer = (if flags AND REPLYCTX_COPY \<noteq> 0
                                   then g_memdup (Some b) (ucast bodySize) else Some b),
                         size_b = bodySize,
                         copy = (flags AND REPLYCTX_DESTROY_ON_CLEAN) OR (flags AND REPLYCTX_COPY)\<rparr>\<rparr>),
                      fx1)
                   else (Some ctx1, fx1))))"

text \<open>The header adders. \<^verbatim>\<open>reply_context_add_bufheader_in_reply\<close> gets a byte pointer and
  a \<^verbatim>\<open>gsize\<close> length, which \<^verbatim>\<open>g_byte_array_append\<close> receives as a \<^verbatim>\<open>guint\<close>.\<close>

definition reply_context_add_bufheader_in_reply ::
  "'m reply_context_s option \<Rightarrow> string option \<Rightarrow> guint8 list option \<Rightarrow> gsize
     \<Rightarrow> 'm reply_context_s option" where
  "reply_context_add_bufheader_in_reply ctxp kp vp vlen =
     (case (ctxp, kp, vp) of
        (Some ctx, Some k, Some v) \<Rightarrow>
          (if vlen = 0 then ctxp
           else
             (let t = (case extra_headers ctx of
                         None \<Rightarrow> g_hash_table_new_full | Some t \<Rightarrow> t);
                  newK = k;
                  newV = g_byte_array_append g_byte_array_new v (ucast vlen)
              in Some (ctx\<lparr>extra_headers := Some (g_hash_table_insert t newK newV)\<rparr>)))
      | _ \<Rightarrow> ctxp)"

text \<open>A \<^verbatim>\<open>gchar\<close> is read as a byte; \<^verbatim>\<open>strlen\<close> is a \<^verbatim>\<open>gsize\<close>.\<close>

definition bytes_of :: "string \<Rightarrow> guint8 list" where
  "bytes_of s = map (\<lambda>c. of_nat (of_char c)) s"

definition strlen :: "string \<Rightarrow> gsize" where
  "strlen s = of_nat (length s)"

definition reply_context_add_strheader_in_reply ::
  "'m reply_context_s option \<Rightarrow> string option \<Rightarrow> string option \<Rightarrow> 'm reply_context_s option" where
  "reply_context_add_strheader_in_reply ctxp kp vp =
     (case (ctxp, kp, vp) of
        (Some ctx, Some k, Some v) \<Rightarrow>
          reply_context_add_bufheader_in_reply ctxp kp (Some (bytes_of v)) (strlen v)
      | _ \<Rightarrow> ctxp)"

definition reply_context_add_header_in_reply ::
  "'m reply_context_s option \<Rightarrow> string option \<Rightarrow> GByteArray option \<Rightarrow> 'm reply_context_s option" where
  "reply_context_add_header_in_reply ctxp kp vp =
     (case (ctxp, kp, vp) of
        (Some ctx, Some k, Some v) \<Rightarrow>
          reply_context_add_bufheader_in_reply ctxp kp (data v) (ucast (len v))
      | _ \<Rightarrow> ctxp)"

definition reply_ctx_header_adder ::
  "string option \<Rightarrow> GByteArray option \<Rightarrow> 'm reply_message option \<Rightarrow> 'm reply_message option" where
  "reply_ctx_header_adder kp vp up =
     (case (kp, vp, up) of
        (Some k, Some gba, Some answer) \<Rightarrow>
          (case data gba of
             None \<Rightarrow> up
           | Some d \<Rightarrow>
               (if len gba = 0 then up
                else Some (metautils_message_add_field answer k d (len gba))))
      | _ \<Rightarrow> up)"

subsection \<open>Sending the reply\<close>

definition MS_REPLY_TIMEOUT :: gint where
  "MS_REPLY_TIMEOUT = 1000"

text \<open>GLib's \<^verbatim>\<open>MAX\<close> and \<^verbatim>\<open>MIN\<close> on \<^verbatim>\<open>gint\<close> operands (the two names are binders of HOL, hence the suffix).\<close>

definition MAX_gint :: "gint \<Rightarrow> gint \<Rightarrow> gint" where
  "MAX_gint a b = (if b <s a then a else b)"

definition MIN_gint :: "gint \<Rightarrow> gint \<Rightarrow> gint" where
  "MIN_gint a b = (if a <s b then a else b)"

text \<open>The message that lines 149 to 154 of \<^verbatim>\<open>reply_context_reply\<close> hand to the
  marshaller.\<close>

definition reply_context_answer :: "'m reply_context_s \<Rightarrow> 'm reply_message option" where
  "reply_context_answer ctx =
     (let ptr_msg = (case msg (header ctx) of Some m \<Rightarrow> m | None \<Rightarrow> ''NOMSG'');
          answer = Some (metaXServer_reply_simple (request (req_ctx ctx)) (code (header ctx)) ptr_msg);
          answer = (case extra_headers ctx of
                      Some t \<Rightarrow> g_hash_table_foreach t reply_ctx_header_adder answer
                    | None \<Rightarrow> answer)
      in case (buffer (body ctx), answer) of
           (Some b, Some a) \<Rightarrow>
             (if size_b (body ctx) > 0
              then Some (metautils_message_set_BODY a b (size_b (body ctx))) else answer)
         | _ \<Rightarrow> answer)"

text \<open>\<^verbatim>\<open>reply_context_reply\<close>. Its collaborators are arguments: the marshaller
  \<^verbatim>\<open>message_marshall_gba_and_clean\<close> (no byte array when it fails), the transport's
  \<^verbatim>\<open>sock_to_write\<close> (the count it returns and what it leaves in the error slot) and
  the server's \<^verbatim>\<open>default_to_operation\<close>. The result is the returned \<^verbatim>\<open>gint\<close>, the
  caller's error slot and the calls made.\<close>

definition reply_context_reply ::
  "('m reply_message option \<Rightarrow> GByteArray option)
     \<Rightarrow> (gint \<Rightarrow> gint \<Rightarrow> guint8 list option \<Rightarrow> gsize \<Rightarrow> gerror_ptr \<Rightarrow> gint \<times> gerror_ptr)
     \<Rightarrow> gint \<Rightarrow> 'm reply_context_s \<Rightarrow> gerror_ptr
     \<Rightarrow> gint \<times> gerror_ptr \<times> 'm effect list" where
  "reply_context_reply message_marshall_gba_and_clean sock_to_write default_to_operation ctx err =
     (let answer = reply_context_answer ctx
      in case message_marshall_gba_and_clean answer of
           None \<Rightarrow> (1, err, [Marshall answer])
         | Some encoded \<Rightarrow>
             (let to = MAX_gint MS_REPLY_TIMEOUT (MIN_gint 60000 default_to_operation);
                  (sent, err1) = sock_to_write (fd (req_ctx ctx)) to (data encoded)
                                   (ucast (len encoded)) err;
                  done = (0 <s sent \<and> len encoded = sent);
                  fx = [Marshall answer,
                        Sock_to_write (fd (req_ctx ctx)) to (data encoded) (ucast (len encoded)),
                        G_byte_array_unref encoded]
              in if \<not> done then (0, g_prefix_error err1 ''Failed to reply: '', fx)
                 else (1, err1, fx)))"

section \<open>Message handlers\<close>

text \<open>\<^verbatim>\<open>struct message_handler_s\<close>: the function pointers may be \<^verbatim>\<open>NULL\<close>; a matcher is
  a predicate on the inbound message. The \<^verbatim>\<open>next\<close> pointers make the chain that starts
  at \<^verbatim>\<open>BEACON_MSGHANDLER.next\<close>, which is a list here. \<^verbatim>\<open>serv_tags\<close> is the
  \<^verbatim>\<open>GPtrArray\<close> of service tags, \<^verbatim>\<open>NULL\<close> until its first use.\<close>

record ('m, 'h, 'h2) message_handler_s =
  matcher :: "('m \<Rightarrow> bool) option"
  handler :: "'h option"
  handler_v2 :: "'h2 option"
  name :: string

record ('m, 'h, 'h2, 'tag) server =
  BEACON_MSGHANDLER :: "('m, 'h, 'h2) message_handler_s list"
  serv_tags :: "'tag list option"

text \<open>\<^verbatim>\<open>strncpy (dst, src, n)\<close> into a zeroed array that is longer than \<open>n\<close>.\<close>

definition strncpy :: "string \<Rightarrow> nat \<Rightarrow> string" where
  "strncpy src n = take n src"

text \<open>\<^verbatim>\<open>message_handler_add\<close>. The macro \<^verbatim>\<open>GSETERROR\<close> and the constant
  \<^verbatim>\<open>SIZE_MSGHANDLERNAME\<close> come from headers that are not under src/: they are the first
  two arguments. The result is the returned \<^verbatim>\<open>gint\<close>, the caller's error slot and the
  server's state.\<close>

definition message_handler_add ::
  "(gerror_ptr \<Rightarrow> string \<Rightarrow> gerror_ptr) \<Rightarrow> nat
     \<Rightarrow> string option \<Rightarrow> ('m \<Rightarrow> bool) option \<Rightarrow> 'h option \<Rightarrow> gerror_ptr
     \<Rightarrow> ('m, 'h, 'h2, 'tag) server
     \<Rightarrow> gint \<times> gerror_ptr \<times> ('m, 'h, 'h2, 'tag) server" where
  "message_handler_add GSETERROR SIZE_MSGHANDLERNAME namep m h err srv =
     (case (namep, m, h) of
        (Some n, Some mf, Some hf) \<Rightarrow>
          (let mh = \<lparr>matcher = Some mf, handler = Some hf, handler_v2 = None,
                     name = strncpy n (SIZE_MSGHANDLERNAME - 1)\<rparr>
           in (1, err, srv\<lparr>BEACON_MSGHANDLER := mh # BEACON_MSGHANDLER srv\<rparr>))
      | _ \<Rightarrow> (0, GSETERROR err ''Invalid parameter'', srv))"

text \<open>\<^verbatim>\<open>message_handler_add_v2\<close>; \<^verbatim>\<open>service_tag_dup\<close> is a further argument.\<close>

definition message_handler_add_v2 ::
  "(gerror_ptr \<Rightarrow> string \<Rightarrow> gerror_ptr) \<Rightarrow> nat \<Rightarrow> ('tag \<Rightarrow> 'tag)
     \<Rightarrow> string option \<Rightarrow> ('m \<Rightarrow> bool) option \<Rightarrow> 'h2 option \<Rightarrow> 'tag list option \<Rightarrow> gerror_ptr
     \<Rightarrow> ('m, 'h, 'h2, 'tag) server
     \<Rightarrow> gint \<times> gerror_ptr \<times> ('m, 'h, 'h2, 'tag) server" where
  "message_handler_add_v2 GSETERROR SIZE_MSGHANDLERNAME service_tag_dup namep m h tags err srv =
     (case (namep, m, h) of
        (Some n, Some mf, Some hf) \<Rightarrow>
          (let mh = \<lparr>matcher = Some mf, handler = None, handler_v2 = Some hf,
                     name = strncpy n (SIZE_MSGHANDLERNAME - 1)\<rparr>;
               st = (case serv_tags srv of None \<Rightarrow> [] | Some st \<Rightarrow> st);
               st = (case tags of
                       None \<Rightarrow> st
                     | Some ts \<Rightarrow> fold (\<lambda>tag acc. acc @ [service_tag_dup tag]) ts st)
           in (1, err, srv\<lparr>BEACON_MSGHANDLER := mh # BEACON_MSGHANDLER srv,
                             serv_tags := Some st\<rparr>))
      | _ \<Rightarrow> (0, GSETERROR err ''Invalid parameters'', srv))"

text \<open>Modelled from the spec: the dispatch loop of the server is not under src/. The
  registry is scanned front-to-back; the first entry whose matcher returns true is
  selected.\<close>

definition dispatch ::
  "('m, 'h, 'h2, 'tag) server \<Rightarrow> 'm \<Rightarrow> ('m, 'h, 'h2) message_handler_s option" where
  "dispatch srv x =
     find (\<lambda>mh. case matcher mh of Some f \<Rightarrow> f x | None \<Rightarrow> False) (BEACON_MSGHANDLER srv)"

text \<open>A registration call of either kind, and a sequence of them.\<close>

datatype ('m, 'h, 'h2, 'tag) registration =
    Simple "string option" "('m \<Rightarrow> bool) option" "'h option"
  | Tagged "string option" "('m \<Rightarrow> bool) option" "'h2 option" "'tag list option"

fun register ::
  "(gerror_ptr \<Rightarrow> string \<Rightarrow> gerror_ptr) \<Rightarrow> nat \<Rightarrow> ('tag \<Rightarrow> 'tag)
     \<Rightarrow> ('m, 'h, 'h2, 'tag) registration \<Rightarrow> gerror_ptr \<Rightarrow> ('m, 'h, 'h2, 'tag) server
     \<Rightarrow> gint \<times> gerror_ptr \<times> ('m, 'h, 'h2, 'tag) server" where
  "register E S D (Simple n m h) err srv = message_handler_add E S n m h err srv"
| "register E S D (Tagged n m h tags) err srv = message_handler_add_v2 E S D n m h tags err srv"

fun register_all ::
  "(gerror_ptr \<Rightarrow> string \<Rightarrow> gerror_ptr) \<Rightarrow> nat \<Rightarrow> ('tag \<Rightarrow> 'tag)
     \<Rightarrow> ('m, 'h, 'h2, 'tag) registration list \<Rightarrow> gerror_ptr \<Rightarrow> ('m, 'h, 'h2, 'tag) server
     \<Rightarrow> gint list \<times> gerror_ptr \<times> ('m, 'h, 'h2, 'tag) server" where
  "register_all E S D [] err srv = ([], err, srv)"
| "register_all E S D (r # rs) err srv =
     (case register E S D r err srv of
        (rc, err1, srv1) \<Rightarrow>
          (case register_all E S D rs err1 srv1 of
             (rcs, err2, srv2) \<Rightarrow> (rc # rcs, err2, srv2)))"

text \<open>The entry a registration with all three arguments present puts into the chain.\<close>

fun entry_of :: "nat \<Rightarrow> ('m, 'h, 'h2, 'tag) registration \<Rightarrow> ('m, 'h, 'h2) message_handler_s option" where
  "entry_of S (Simple (Some n) (Some m) (Some h)) =
     Some \<lparr>matcher = Some m, handler = Some h, handler_v2 = None, name = strncpy n (S - 1)\<rparr>"
| "entry_of S (Tagged (Some n) (Some m) (Some h) tags) =
     Some \<lparr>matcher = Some m, handler = None, handler_v2 = Some h, name = strncpy n (S - 1)\<rparr>"
| "entry_of S r = None"

section \<open>Request contexts\<close>

text \<open>The store of allocated blocks: an address record (\<^verbatim>\<open>addr_info_t\<close>, of type \<open>'ai\<close>)
  or a request context, under its address. \<^verbatim>\<open>g_malloc0\<close> returns an address that is
  neither \<^verbatim>\<open>NULL\<close> nor in use and stores the zero-filled block it is asked for;
  \<^verbatim>\<open>g_free\<close> removes the block.\<close>

datatype ('ai, 'm) block = Addr_info 'ai | Request_context "'m request_context_s"

type_synonym ('ai, 'm) heap = "(nat \<times> ('ai, 'm) block) list"

definition g_malloc0 :: "('ai, 'm) block \<Rightarrow> ('ai, 'm) heap \<Rightarrow> nat \<times> ('ai, 'm) heap" where
  "g_malloc0 zero h = (let p = Suc (fold max (map fst h) 0) in (p, (p, zero) # h))"

definition g_free :: "nat \<Rightarrow> ('ai, 'm) heap \<Rightarrow> ('ai, 'm) heap" where
  "g_free p h = filter (\<lambda>e. fst e \<noteq> p) h"

definition store :: "nat \<Rightarrow> ('ai, 'm) block \<Rightarrow> ('ai, 'm) heap \<Rightarrow> ('ai, 'm) heap" where
  "store p b h = AList.update p b h"

definition request_context_zero :: "'m request_context_s" where
  "request_context_zero =
     \<lparr>tv_start = (0, 0), local_addr = 0, remote_addr = 0, fd = 0, request = None\<rparr>"

text \<open>\<^verbatim>\<open>request_context_clear\<close>: \<open>None\<close> when the pointer is not that of a live request
  context, where the C code has no defined behaviour.\<close>

definition request_context_clear :: "nat \<Rightarrow> ('ai, 'm) heap \<Rightarrow> ('ai, 'm) heap option" where
  "request_context_clear request_info h =
     (if request_info = 0 then Some h
      else case map_of h request_info of
             Some (Request_context c) \<Rightarrow>
               (let h1 = (if local_addr c \<noteq> 0 then g_free (local_addr c) h else h);
                    h2 = (if remote_addr c \<noteq> 0 then g_free (remote_addr c) h1 else h1)
                in Some (store request_info (Request_context request_context_zero) h2))
           | _ \<Rightarrow> None)"

definition request_context_free :: "nat \<Rightarrow> ('ai, 'm) heap \<Rightarrow> ('ai, 'm) heap option" where
  "request_context_free request_info h =
     (if request_info = 0 then Some h
      else map_option (g_free request_info) (request_context_clear request_info h))"

text \<open>\<^verbatim>\<open>request_context_create\<close>. The system calls and the address resolver are
  arguments: the clock reading of \<^verbatim>\<open>gettimeofday\<close>; \<^verbatim>\<open>getpeername\<close> and
  \<^verbatim>\<open>getsockname\<close>, which get the zeroed \<^verbatim>\<open>sockaddr_storage\<close> and its size and return
  what they leave there; \<^verbatim>\<open>addrinfo_from_sockaddr\<close>, which gets the content of the address
  record and returns what it leaves there; and the size of a \<^verbatim>\<open>sockaddr_storage\<close>. The
  values returned by the three calls are ignored by the code.\<close>

definition request_context_create ::
  "timeval \<Rightarrow> (gint \<Rightarrow> 'sa::zero \<Rightarrow> nat \<Rightarrow> 'sa \<times> nat) \<Rightarrow> (gint \<Rightarrow> 'sa \<Rightarrow> nat \<Rightarrow> 'sa \<times> nat)
     \<Rightarrow> ('ai \<Rightarrow> 'sa \<Rightarrow> nat \<Rightarrow> 'ai) \<Rightarrow> nat
     \<Rightarrow> gint \<Rightarrow> 'ai option \<Rightarrow> ('ai::zero, 'm) heap \<Rightarrow> nat \<times> ('ai, 'm) heap" where
  "request_context_create gettimeofday getpeername getsockname addrinfo_from_sockaddr
       sizeof_ss fd_arg fd_peer h =
     (let (ctx, h) = g_malloc0 (Request_context request_context_zero) h;
          c = request_context_zero\<lparr>fd := fd_arg\<rparr>;
          c = c\<lparr>tv_start := gettimeofday\<rparr>;
          (ra, h) = g_malloc0 (Addr_info 0) h;
          c = c\<lparr>remote_addr := ra\<rparr>;
          (ss_dst, ss_dst_len) = getpeername fd_arg 0 sizeof_ss;
          h = store ra (Addr_info (addrinfo_from_sockaddr 0 ss_dst ss_dst_len)) h;
          (la, h) = g_malloc0 (Addr_info 0) h;
          c = c\<lparr>local_addr := la\<rparr>;
          h = (case fd_peer of
                 Some a \<Rightarrow> store la (Addr_info a) h
               | None \<Rightarrow>
                   (let (ss_src, ss_src_len) = getsockname fd_arg 0 sizeof_ss
                    in store la (Addr_info (addrinfo_from_sockaddr 0 ss_src ss_src_len)) h))
      in (ctx, store ctx (Request_context c) h))"

section \<open>Reading effect lists\<close>

text \<open>The deadlines of the writes in a list of effects, and the byte arrays released in
  it.\<close>

fun deadlines :: "'m effect list \<Rightarrow> gint list" where
  "deadlines [] = []"
| "deadlines (Sock_to_write f t d l # fx) = t # deadlines fx"
| "deadlines (e # fx) = deadlines fx"

fun unrefs :: "'m effect list \<Rightarrow> GByteArray list" where
  "unrefs [] = []"
| "unrefs (G_byte_array_unref a # fx) = a # unrefs fx"
| "unrefs (e # fx) = unrefs fx"

text \<open>The table of extra headers of a context, empty when none was created yet, and the
  invariant of a \<^verbatim>\<open>GHashTable\<close> that no key occurs twice.\<close>

definition table_of :: "'m reply_context_s \<Rightarrow> GHashTable" where
  "table_of ctx = (case extra_headers ctx of None \<Rightarrow> [] | Some t \<Rightarrow> t)"

definition keys_unique :: "'m reply_context_s \<Rightarrow> bool" where
  "keys_unique ctx = (case extra_headers ctx of None \<Rightarrow> True | Some t \<Rightarrow> distinct (map fst t))"


section \<open>Example inputs\<close>

text \<open>A reply context on descriptor 7 with status 200 and no message, a marshaller that
  encodes every message as three bytes, one that fails, a transport that writes
  everything and one that reports a write error.\<close>

definition ctx_example :: "unit reply_context_s" where
  "ctx_example =
     \<lparr>req_ctx = \<lparr>tv_start = (0, 0), local_addr = 0, remote_addr = 0, fd = 7, request = Some ()\<rparr>,
      extra_headers = None, warning = None,
      header = \<lparr>code = 200, msg = None\<rparr>,
      body = \<lparr>buffer = None, size_b = 0, copy = 0\<rparr>\<rparr>"

definition enc_example :: GByteArray where
  "enc_example = \<lparr>data = Some [1, 2, 3], len = 3\<rparr>"

definition marshall_bytes :: "unit reply_message option \<Rightarrow> GByteArray option" where
  "marshall_bytes a = Some enc_example"

definition marshall_none :: "unit reply_message option \<Rightarrow> GByteArray option" where
  "marshall_none a = None"

definition sock_write_all ::
  "gint \<Rightarrow> gint \<Rightarrow> guint8 list option \<Rightarrow> gsize \<Rightarrow> gerror_ptr \<Rightarrow> gint \<times> gerror_ptr" where
  "sock_write_all f t d n err = (ucast n, err)"

definition sock_write_fails ::
  "gint \<Rightarrow> gint \<Rightarrow> guint8 list option \<Rightarrow> gsize \<Rightarrow> gerror_ptr \<Rightarrow> gint \<times> gerror_ptr" where
  "sock_write_fails f t d n err =
     (- 1, case err of
             Err_null \<Rightarrow> Err_null
           | Err_slot e \<Rightarrow> Err_slot (Some \<lparr>err_code = 0, err_message = ''Write error''\<rparr>))"

text \<open>The same context with an owned body of two bytes.\<close>

definition ctx_with_body :: "unit reply_context_s" where
  "ctx_with_body = ctx_example\<lparr>body := \<lparr>buffer = Some [1, 2], size_b = 2, copy = 2\<rparr>\<rparr>"

text \<open>An error setter that fills an empty slot, a copy function for tags, two matchers
  on numbers and an empty server.\<close>

definition GSETERROR_new :: "gerror_ptr \<Rightarrow> string \<Rightarrow> gerror_ptr" where
  "GSETERROR_new err m =
     (case err of
        Err_null \<Rightarrow> Err_null
      | Err_slot None \<Rightarrow> Err_slot (Some \<lparr>err_code = 0, err_message = m\<rparr>)
      | Err_slot (Some e) \<Rightarrow> Err_slot (Some e))"

definition tag_copy :: "nat \<Rightarrow> nat" where
  "tag_copy t = t"

definition match_any :: "nat \<Rightarrow> bool" where
  "match_any x = True"

definition match_small :: "nat \<Rightarrow> bool" where
  "match_small x = (x < 10)"

definition srv_empty :: "(nat, string, string, nat) server" where
  "srv_empty = \<lparr>BEACON_MSGHANDLER = [], serv_tags = None\<rparr>"

definition reg_A :: "(nat, string, string, nat) registration" where
  "reg_A = Simple (Some ''A'') (Some match_any) (Some ''handler A'')"

definition reg_B :: "(nat, string, string, nat) registration" where
  "reg_B = Tagged (Some ''B'') (Some match_small) (Some ''handler B'') (Some [4, 2])"

definition entry_A :: "(nat, string, string) message_handler_s" where
  "entry_A = \<lparr>matcher = Some match_any, handler = Some ''handler A'', handler_v2 = None,
              name = ''A''\<rparr>"

definition entry_B :: "(nat, string, string) message_handler_s" where
  "entry_B = \<lparr>matcher = Some match_small, handler = None, handler_v2 = Some ''handler B'',
              name = ''B''\<rparr>"


text \<open>Calls of \<^verbatim>\<open>getpeername\<close> and \<^verbatim>\<open>getsockname\<close> that fail and leave the storage as it
  is, a resolver that leaves the address record as it is, and a store with one block.\<close>

definition getname_fails :: "gint \<Rightarrow> nat \<Rightarrow> nat \<Rightarrow> nat \<times> nat" where
  "getname_fails f ss n = (ss, n)"

definition addrinfo_keeps :: "nat \<Rightarrow> nat \<Rightarrow> nat \<Rightarrow> nat" where
  "addrinfo_keeps a ss n = a"

definition heap_example :: "(nat, unit) heap" where
  "heap_example = [(5, Addr_info 9)]"


text \<open>A transport that writes one byte and reports no error.\<close>

definition sock_write_short ::
  "gint \<Rightarrow> gint \<Rightarrow> guint8 list option \<Rightarrow> gsize \<Rightarrow> gerror_ptr \<Rightarrow> gint \<times> gerror_ptr" where
  "sock_write_short f t d n err = (1, err)"

section \<open>Properties of the reply\<close>

subsection \<open>Auxiliary facts\<close>

lemma clamp_sint:
  "sint (MAX_gint MS_REPLY_TIMEOUT (MIN_gint 60000 d)) = max 1000 (min 60000 (sint d))"
  by (auto simp add: MAX_gint_def MIN_gint_def MS_REPLY_TIMEOUT_def word_sless_alt)

lemma pos_sint_uint: "0 < sint (w :: 32 word) \<Longrightarrow> uint w = sint w"
  using sint_lt [of w] by (simp add: uint_sint take_bit_int_eq_self)

text \<open>The test of line 161, \<^verbatim>\<open>(sent > 0) && (encoded->len == (guint)sent)\<close>, read on
  the integers.\<close>

lemma done_iff:
  "(0 <s (sent :: 32 word) \<and> l = sent) = (0 < sint sent \<and> uint l = sint sent)"
proof (cases "0 < sint sent")
  case True
  then have "uint sent = sint sent" by (rule pos_sint_uint)
  then have "(l = sent) = (uint l = sint sent)" by (auto simp: word_uint_eq_iff)
  with True show ?thesis by (simp add: word_sless_alt)
next
  case False
  then show ?thesis by (simp add: word_sless_alt)
qed

lemma reply_Some:
  assumes "M (reply_context_answer ctx) = Some encoded"
      and "W (fd (req_ctx ctx)) (MAX_gint MS_REPLY_TIMEOUT (MIN_gint 60000 dto)) (data encoded)
             (ucast (len encoded)) err = (sent, err1)"
  shows "reply_context_reply M W dto ctx err =
           (let fx = [Marshall (reply_context_answer ctx),
                      Sock_to_write (fd (req_ctx ctx))
                        (MAX_gint MS_REPLY_TIMEOUT (MIN_gint 60000 dto))
                        (data encoded) (ucast (len encoded)),
                      G_byte_array_unref encoded]
            in if 0 < sint sent \<and> uint (len encoded) = sint sent then (1, err1, fx)
               else (0, g_prefix_error err1 ''Failed to reply: '', fx))"
  using assms by (simp add: reply_context_reply_def Let_def done_iff [symmetric])

lemma reply_None:
  "M (reply_context_answer ctx) = None \<Longrightarrow>
     reply_context_reply M W dto ctx err = (1, err, [Marshall (reply_context_answer ctx)])"
  by (simp add: reply_context_reply_def Let_def)

lemma g_prefix_error_message:
  "g_prefix_error e p = Err_slot (Some x) \<Longrightarrow>
     \<exists>y. e = Err_slot (Some y) \<and> err_message x = p @ err_message y \<and> err_code x = err_code y"
  by (cases "(e, p)" rule: g_prefix_error.cases) auto

lemma answer_example:
  "reply_context_answer ctx_example =
     Some \<lparr>in_reply_to = Some (), reply_status = 200, reply_msg = ''NOMSG'',
           reply_fields = [], reply_body = None\<rparr>"
  by (simp add: reply_context_answer_def ctx_example_def metaXServer_reply_simple_def)

text \<open>The header adder and the table walk leave the request, the status and the message
  of the reply as they are.\<close>

lemma adder_keeps:
  "\<exists>a'. reply_ctx_header_adder kp vp (Some a) = Some a'
        \<and> reply_msg a' = reply_msg a \<and> reply_status a' = reply_status a
        \<and> in_reply_to a' = in_reply_to a"
  by (simp add: reply_ctx_header_adder_def metautils_message_add_field_def
           split: option.splits)

lemma foreach_keeps:
  "\<exists>a'. g_hash_table_foreach t reply_ctx_header_adder (Some a) = Some a'
        \<and> reply_msg a' = reply_msg a \<and> reply_status a' = reply_status a
        \<and> in_reply_to a' = in_reply_to a"
proof (induction t arbitrary: a)
  case Nil
  show ?case by (simp add: g_hash_table_foreach_def)
next
  case (Cons e t)
  obtain a1 where a1: "reply_ctx_header_adder (Some (fst e)) (Some (snd e)) (Some a) = Some a1"
      "reply_msg a1 = reply_msg a" "reply_status a1 = reply_status a"
      "in_reply_to a1 = in_reply_to a"
    using adder_keeps [of "Some (fst e)" "Some (snd e)" a] by blast
  from Cons.IH [of a1] a1 show ?case
    by (simp add: g_hash_table_foreach_def)
qed

lemma answer_keeps:
  "\<exists>a. reply_context_answer ctx = Some a
       \<and> reply_msg a = (case msg (header ctx) of Some m \<Rightarrow> m | None \<Rightarrow> ''NOMSG'')
       \<and> reply_status a = code (header ctx)
       \<and> in_reply_to a = request (req_ctx ctx)"
proof -
  let ?a0 = "metaXServer_reply_simple (request (req_ctx ctx)) (code (header ctx))
               (case msg (header ctx) of Some m \<Rightarrow> m | None \<Rightarrow> ''NOMSG'')"
  have z: "reply_msg ?a0 = (case msg (header ctx) of Some m \<Rightarrow> m | None \<Rightarrow> ''NOMSG'')"
     "reply_status ?a0 = code (header ctx)" "in_reply_to ?a0 = request (req_ctx ctx)"
    by (simp_all add: metaXServer_reply_simple_def)
  obtain a1 where a1:
      "(case extra_headers ctx of
          Some t \<Rightarrow> g_hash_table_foreach t reply_ctx_header_adder (Some ?a0)
        | None \<Rightarrow> Some ?a0) = Some a1"
      "reply_msg a1 = reply_msg ?a0" "reply_status a1 = reply_status ?a0"
      "in_reply_to a1 = in_reply_to ?a0"
    using foreach_keeps [of _ ?a0] by (cases "extra_headers ctx") auto
  show ?thesis
    using a1 z
    by (simp add: reply_context_answer_def Let_def metautils_message_set_BODY_def
          split: option.splits)
qed

subsection \<open>The outcome of the write\<close>

text \<open>
  Claim C1, as stated: on every write outcome other than the full count,
  \<^verbatim>\<open>reply_context_reply\<close> returns a failure indicator whose error is prefixed with
  \<^verbatim>\<open>Failed to reply: \<close>. The code prefixes only an error that the write has left:
  after a short write that reports no error it returns 0 and the caller's slot is still
  empty, and a caller that passes no slot gets no error from a failed write either.
\<close>

theorem reply_context_reply_error_prefix_counterexample:
  "marshall_bytes (reply_context_answer ctx_example) = Some enc_example
   \<and> fst (reply_context_reply marshall_bytes sock_write_short 30000 ctx_example (Err_slot None)) = 0
   \<and> fst (snd (reply_context_reply marshall_bytes sock_write_short 30000 ctx_example
                  (Err_slot None))) = Err_slot None
   \<and> fst (reply_context_reply marshall_bytes sock_write_fails 30000 ctx_example Err_null) = 0
   \<and> fst (snd (reply_context_reply marshall_bytes sock_write_fails 30000 ctx_example Err_null))
       = Err_null"
  by (simp add: marshall_bytes_def reply_context_reply_def sock_write_short_def
        sock_write_fails_def enc_example_def word_sless_alt)

text \<open>
  Claim C1, amended. When the marshaller has produced the serialized reply \<open>encoded\<close> and
  the transport's write returns the count \<open>sent\<close>, \<^verbatim>\<open>reply_context_reply\<close> returns 1 if
  and only if \<open>sent\<close> is strictly positive and equal to the length of \<open>encoded\<close>; on every
  other count it returns 0, and an error that the write has left in the caller's slot has
  its message prefixed with \<^verbatim>\<open>Failed to reply: \<close>, while a slot left empty stays empty
  and a caller without a slot gets no error. In both outcomes the serialized byte array is
  released exactly once.
\<close>

theorem reply_context_reply_write_outcome:
  assumes "M (reply_context_answer ctx) = Some encoded"
      and "W (fd (req_ctx ctx)) (MAX_gint MS_REPLY_TIMEOUT (MIN_gint 60000 dto)) (data encoded)
             (ucast (len encoded)) err = (sent, err1)"
  shows "\<exists>r e fx. reply_context_reply M W dto ctx err = (r, e, fx)
           \<and> (r = 1) = (0 < sint sent \<and> uint (len encoded) = sint sent)
           \<and> (r = 1 \<or> r = 0)
           \<and> e = (if r = 1 then err1 else g_prefix_error err1 ''Failed to reply: '')
           \<and> (\<forall>y. r = 0 \<and> err1 = Err_slot (Some y) \<longrightarrow>
                  e = Err_slot (Some (y\<lparr>err_message := ''Failed to reply: '' @ err_message y\<rparr>)))
           \<and> (r = 0 \<and> err1 = Err_slot None \<longrightarrow> e = Err_slot None)
           \<and> (r = 0 \<and> err1 = Err_null \<longrightarrow> e = Err_null)
           \<and> (\<forall>x. r = 0 \<and> e = Err_slot (Some x) \<longrightarrow>
                  (\<exists>y. err1 = Err_slot (Some y)
                       \<and> err_message x = ''Failed to reply: '' @ err_message y))
           \<and> unrefs fx = [encoded]"
  using assms reply_Some [of M ctx encoded W dto err sent err1]
  by (auto simp: Let_def dest: g_prefix_error_message)

theorem reply_context_reply_write_outcome_witness:
  "(\<exists>r e fx. reply_context_reply marshall_bytes sock_write_all 30000 ctx_example (Err_slot None)
                = (r, e, fx)
      \<and> r = 1 \<and> e = Err_slot None \<and> unrefs fx = [enc_example])
   \<and> (\<exists>r e fx. reply_context_reply marshall_bytes sock_write_fails 30000 ctx_example (Err_slot None)
                = (r, e, fx)
      \<and> r = 0
      \<and> e = Err_slot (Some \<lparr>err_code = 0, err_message = ''Failed to reply: Write error''\<rparr>)
      \<and> unrefs fx = [enc_example])
   \<and> (\<exists>r e fx. reply_context_reply marshall_bytes sock_write_short 30000 ctx_example (Err_slot None)
                = (r, e, fx)
      \<and> r = 0 \<and> e = Err_slot None \<and> unrefs fx = [enc_example])
   \<and> (\<exists>r e fx. reply_context_reply marshall_bytes sock_write_fails 30000 ctx_example Err_null
                = (r, e, fx)
      \<and> r = 0 \<and> e = Err_null \<and> unrefs fx = [enc_example])"
proof -
  have m: "marshall_bytes (reply_context_answer ctx_example) = Some enc_example"
    by (simp add: marshall_bytes_def)
  have w1: "sock_write_all (fd (req_ctx ctx_example))
              (MAX_gint MS_REPLY_TIMEOUT (MIN_gint 60000 30000))
              (data enc_example) (ucast (len enc_example)) (Err_slot None) = (3, Err_slot None)"
    by (simp add: sock_write_all_def enc_example_def)
  have w2: "sock_write_fails (fd (req_ctx ctx_example))
              (MAX_gint MS_REPLY_TIMEOUT (MIN_gint 60000 30000))
              (data enc_example) (ucast (len enc_example)) (Err_slot None)
            = (- 1, Err_slot (Some \<lparr>err_code = 0, err_message = ''Write error''\<rparr>))"
    by (simp add: sock_write_fails_def)
  have w3: "sock_write_short (fd (req_ctx ctx_example))
              (MAX_gint MS_REPLY_TIMEOUT (MIN_gint 60000 30000))
              (data enc_example) (ucast (len enc_example)) (Err_slot None) = (1, Err_slot None)"
    by (simp add: sock_write_short_def)
  have w4: "sock_write_fails (fd (req_ctx ctx_example))
              (MAX_gint MS_REPLY_TIMEOUT (MIN_gint 60000 30000))
              (data enc_example) (ucast (len enc_example)) Err_null = (- 1, Err_null)"
    by (simp add: sock_write_fails_def)
  show ?thesis
    using reply_context_reply_write_outcome [where M = marshall_bytes and W = sock_write_all, OF m w1]
          reply_context_reply_write_outcome [where M = marshall_bytes and W = sock_write_fails, OF m w2]
          reply_context_reply_write_outcome [where M = marshall_bytes and W = sock_write_short, OF m w3]
          reply_context_reply_write_outcome [where M = marshall_bytes and W = sock_write_fails, OF m w4]
    by (auto simp: enc_example_def)
qed

subsection \<open>A marshaller that yields no bytes\<close>

text \<open>
  Claim C2, as stated: when the marshaller yields no byte sequence,
  \<^verbatim>\<open>reply_context_reply\<close> reports an error to its caller and returns the failure indicator.
  The code does not: with the failing marshaller it returns 1 and leaves the caller's
  empty error slot empty.
\<close>

theorem reply_context_reply_marshall_failure_counterexample:
  "marshall_none (reply_context_answer ctx_example) = None
   \<and> fst (reply_context_reply marshall_none sock_write_all 30000 ctx_example (Err_slot None)) \<noteq> 0
   \<and> fst (snd (reply_context_reply marshall_none sock_write_all 30000 ctx_example (Err_slot None)))
       = Err_slot None"
  by (simp add: marshall_none_def reply_context_reply_def)

text \<open>
  Claim C2, amended: when the marshaller yields no byte sequence, the guard of line 158
  skips the write; \<^verbatim>\<open>reply_context_reply\<close> writes nothing, leaves the caller's error slot
  as it was and returns 1.
\<close>

theorem reply_context_reply_no_encoding:
  "M (reply_context_answer ctx) = None \<Longrightarrow>
     reply_context_reply M W dto ctx err = (1, err, [Marshall (reply_context_answer ctx)])
     \<and> deadlines (snd (snd (reply_context_reply M W dto ctx err))) = []"
  by (simp add: reply_None)

theorem reply_context_reply_no_encoding_witness:
  "marshall_none (reply_context_answer ctx_example) = None
   \<and> reply_context_reply marshall_none sock_write_fails 30000 ctx_example (Err_slot None)
       = (1, Err_slot None, [Marshall (reply_context_answer ctx_example)])"
  using reply_context_reply_no_encoding [where M = marshall_none and W = sock_write_fails
      and ctx = ctx_example and dto = 30000 and err = "Err_slot None"]
  by (simp add: marshall_none_def)

subsection \<open>The deadline of the write\<close>

text \<open>
  Claim C4. Whenever \<^verbatim>\<open>reply_context_reply\<close> writes, it makes one write, whose deadline is
  \<^verbatim>\<open>default_to_operation\<close> clamped into the range from 1000 to 60000; the configured
  values 0, 500, 30000 and 120000 give the deadlines 1000, 1000, 30000 and 60000.
\<close>

theorem reply_context_reply_deadline:
  "M (reply_context_answer ctx) = Some encoded \<Longrightarrow>
     (\<exists>t. deadlines (snd (snd (reply_context_reply M W dto ctx err))) = [t]
          \<and> sint t = max 1000 (min 60000 (sint dto)))
     \<and> deadlines (snd (snd (reply_context_reply M W 0 ctx err))) = [1000]
     \<and> deadlines (snd (snd (reply_context_reply M W 500 ctx err))) = [1000]
     \<and> deadlines (snd (snd (reply_context_reply M W 30000 ctx err))) = [30000]
     \<and> deadlines (snd (snd (reply_context_reply M W 120000 ctx err))) = [60000]"
proof -
  assume m: "M (reply_context_answer ctx) = Some encoded"
  have d: "deadlines (snd (snd (reply_context_reply M W d ctx err)))
             = [MAX_gint MS_REPLY_TIMEOUT (MIN_gint 60000 d)]" for d
    using m by (simp add: reply_context_reply_def Let_def split: prod.splits)
  have v: "MAX_gint MS_REPLY_TIMEOUT (MIN_gint 60000 0) = 1000"
          "MAX_gint MS_REPLY_TIMEOUT (MIN_gint 60000 500) = 1000"
          "MAX_gint MS_REPLY_TIMEOUT (MIN_gint 60000 30000) = 30000"
          "MAX_gint MS_REPLY_TIMEOUT (MIN_gint 60000 120000) = 60000"
    by (simp_all add: MAX_gint_def MIN_gint_def MS_REPLY_TIMEOUT_def word_sless_alt)
  show ?thesis
    by (simp add: d v clamp_sint)
qed

theorem reply_context_reply_deadline_witness:
  "marshall_bytes (reply_context_answer ctx_example) = Some enc_example
   \<and> deadlines (snd (snd (reply_context_reply marshall_bytes sock_write_all 120000
                             ctx_example Err_null))) = [60000]"
  using reply_context_reply_deadline [where M = marshall_bytes and W = sock_write_all
      and ctx = ctx_example and encoded = enc_example and err = Err_null]
  by (simp add: marshall_bytes_def)

subsection \<open>The default message\<close>

text \<open>
  Claim C6. For a reply context whose header holds no message, the reply handed to the
  marshaller carries the message \<^verbatim>\<open>NOMSG\<close>, which is not empty, and the status code of the
  header; this is so in particular after \<^verbatim>\<open>reply_context_set_message\<close> was called with a
  status and no message.
\<close>

theorem reply_context_reply_default_message:
  "msg (header ctx) = None \<Longrightarrow>
     (\<exists>a fx. reply_context_answer ctx = Some a
        \<and> reply_msg a = ''NOMSG'' \<and> reply_msg a \<noteq> [] \<and> reply_status a = code (header ctx)
        \<and> snd (snd (reply_context_reply M W dto ctx err)) = Marshall (Some a) # fx)
     \<and> (\<exists>c a. fst (reply_context_set_message (Some ctx1) st None) = Some c
        \<and> reply_context_answer c = Some a \<and> reply_msg a = ''NOMSG'' \<and> reply_status a = st)"
proof -
  assume n: "msg (header ctx) = None"
  obtain a where a: "reply_context_answer ctx = Some a" "reply_msg a = ''NOMSG''"
      "reply_status a = code (header ctx)"
    using answer_keeps [of ctx] n by auto
  have fx: "\<exists>fx. snd (snd (reply_context_reply M W dto ctx err)) = Marshall (Some a) # fx"
    using a(1) by (simp add: reply_context_reply_def Let_def split: option.splits prod.splits)
  let ?c = "ctx1\<lparr>header := \<lparr>code = st, msg = None\<rparr>\<rparr>"
  have s: "fst (reply_context_set_message (Some ctx1) st None) = Some ?c"
    by (simp add: reply_context_set_message_def REPLYCTX_CLEANHEADER_def header_zero_def)
  obtain a2 where a2: "reply_context_answer ?c = Some a2" "reply_msg a2 = ''NOMSG''"
      "reply_status a2 = st"
    using answer_keeps [of ?c] by auto
  show ?thesis using a fx s a2 by auto
qed

theorem reply_context_reply_default_message_witness:
  "msg (header ctx_example) = None
   \<and> reply_context_answer ctx_example =
       Some \<lparr>in_reply_to = Some (), reply_status = 200, reply_msg = ''NOMSG'',
             reply_fields = [], reply_body = None\<rparr>"
  using reply_context_reply_default_message
          [where ctx = ctx_example and M = marshall_bytes and W = sock_write_all]
  by (simp add: answer_example) (simp add: ctx_example_def)

section \<open>Properties of the reply context\<close>

subsection \<open>Clearing\<close>

text \<open>
  Claim C8. \<^verbatim>\<open>reply_context_clear\<close> without \<^verbatim>\<open>all\<close> frees the message and an owned body,
  zeroes the header and the body and leaves the warning and the table of extra headers as
  they are; with \<^verbatim>\<open>all\<close> it first frees the warning and destroys the table, both of which
  are \<^verbatim>\<open>NULL\<close> afterwards, so that the next header added creates a new table that
  holds this header alone.
\<close>

theorem reply_context_clear_partial_and_full:
  "reply_context_clear (Some ctx) False
     = (Some (ctx\<lparr>header := header_zero, body := body_zero\<rparr>),
        (case msg (header ctx) of Some m \<Rightarrow> [G_free_msg m] | None \<Rightarrow> [])
        @ (case buffer (body ctx) of
             Some b \<Rightarrow> (if copy (body ctx) \<noteq> 0 then [G_free_body b] else [])
           | None \<Rightarrow> []))
   \<and> reply_context_clear (Some ctx) True
     = (Some (ctx\<lparr>warning := None, extra_headers := None,
                  header := header_zero, body := body_zero\<rparr>),
        (case warning ctx of Some w \<Rightarrow> [G_error_free w] | None \<Rightarrow> [])
        @ (case extra_headers ctx of Some t \<Rightarrow> [G_hash_table_destroy t] | None \<Rightarrow> [])
        @ (case msg (header ctx) of Some m \<Rightarrow> [G_free_msg m] | None \<Rightarrow> [])
        @ (case buffer (body ctx) of
             Some b \<Rightarrow> (if copy (body ctx) \<noteq> 0 then [G_free_body b] else [])
           | None \<Rightarrow> []))
   \<and> (\<exists>c. fst (reply_context_clear (Some (ctx\<lparr>warning := Some w, extra_headers := Some t\<rparr>))
                  False) = Some c
          \<and> warning c = Some w \<and> extra_headers c = Some t
          \<and> header c = header_zero \<and> body c = body_zero \<and> req_ctx c = req_ctx ctx)
   \<and> (\<exists>c fx. reply_context_clear (Some (ctx\<lparr>warning := Some w, extra_headers := Some t\<rparr>)) True
                = (Some c, fx)
          \<and> warning c = None \<and> extra_headers c = None
          \<and> header c = header_zero \<and> body c = body_zero \<and> req_ctx c = req_ctx ctx
          \<and> take 2 fx = [G_error_free w, G_hash_table_destroy t]
          \<and> (\<exists>c'. reply_context_add_strheader_in_reply (Some c) (Some k) (Some ''v'') = Some c'
                \<and> extra_headers c'
                    = Some [(k, \<lparr>data = Some (bytes_of ''v''), len = 1\<rparr>)]))"
  by (simp add: reply_context_clear_def REPLYCTX_CLEANHEADER_def REPLYCTX_CLEANBODY_def
        reply_context_add_strheader_in_reply_def reply_context_add_bufheader_in_reply_def
        strlen_def g_hash_table_new_full_def g_hash_table_insert_def g_byte_array_append_def
        g_byte_array_new_def bytes_of_def
        split: option.splits)

subsection \<open>Setting the body\<close>

text \<open>
  Claim C9, as stated: \<^verbatim>\<open>reply_context_set_body\<close> with no buffer or a size of zero leaves
  the context, and the body set before, unchanged. The code cleans the body before it
  looks at its arguments: the context with an owned body of two bytes loses it, and the
  buffer is freed.
\<close>

theorem reply_context_set_body_noop_counterexample:
  "fst (reply_context_set_body 1 2 (Some ctx_with_body) None 0 0) \<noteq> Some ctx_with_body
   \<and> fst (reply_context_set_body 1 2 (Some ctx_with_body) (Some [9]) 0 0) \<noteq> Some ctx_with_body
   \<and> fst (reply_context_set_body 1 2 (Some ctx_with_body) None 5 0) \<noteq> Some ctx_with_body
   \<and> reply_context_set_body 1 2 (Some ctx_with_body) None 0 0
       = (Some ctx_example, [G_free_body [1, 2]])"
  by (simp add: reply_context_set_body_def REPLYCTX_CLEANBODY_def ctx_with_body_def
        ctx_example_def body_zero_def)

text \<open>
  Claim C9, amended: \<^verbatim>\<open>reply_context_set_body\<close> with no buffer or a size of zero, under
  every flag word, changes nothing but the body: the body set before is dropped, its
  buffer freed when the context owns it, and the body is empty afterwards (no buffer,
  size 0, not owned). On a context whose body is empty already, and without a context,
  the call does nothing.
\<close>

theorem reply_context_set_body_without_buffer:
  "reply_context_set_body D C (Some ctx) None n flags
     = (Some (ctx\<lparr>body := body_zero\<rparr>),
        (case buffer (body ctx) of
           Some b \<Rightarrow> (if copy (body ctx) \<noteq> 0 then [G_free_body b] else [])
         | None \<Rightarrow> []))
   \<and> reply_context_set_body D C (Some ctx) bp 0 flags
     = (Some (ctx\<lparr>body := body_zero\<rparr>),
        (case buffer (body ctx) of
           Some b \<Rightarrow> (if copy (body ctx) \<noteq> 0 then [G_free_body b] else [])
         | None \<Rightarrow> []))
   \<and> reply_context_set_body D C (Some (ctx\<lparr>body := body_zero\<rparr>)) None n flags
     = (Some (ctx\<lparr>body := body_zero\<rparr>), [])
   \<and> reply_context_set_body D C (Some (ctx\<lparr>body := body_zero\<rparr>)) bp 0 flags
     = (Some (ctx\<lparr>body := body_zero\<rparr>), [])
   \<and> reply_context_set_body D C None bp n flags = (None, [])"
  by (simp add: reply_context_set_body_def REPLYCTX_CLEANBODY_def body_zero_def
        split: option.splits)

subsection \<open>Extra headers\<close>

lemma update_filter_other:
  "filter (\<lambda>e. fst e \<noteq> k) (AList.update k v t) = filter (\<lambda>e. fst e \<noteq> k) t"
  by (induction t) auto

lemma filter_absent: "k \<notin> fst ` set t \<Longrightarrow> filter (\<lambda>e. fst e = k) t = []"
  by (induction t) auto

lemma update_filter_key:
  "distinct (map fst t) \<Longrightarrow> filter (\<lambda>e. fst e = k) (AList.update k v t) = [(k, v)]"
  by (induction t) (auto simp: filter_absent)

text \<open>Conversions between \<^verbatim>\<open>guint\<close> and \<^verbatim>\<open>gsize\<close>.\<close>

lemma ucast_back: "(ucast (ucast (w :: 32 word) :: 64 word) :: 32 word) = w"
  by (rule bit_word_eqI) (auto simp add: bit_simps dest: bit_imp_le_length)

lemma unat_ucast_up: "unat (ucast (w :: 32 word) :: 64 word) = unat w"
proof -
  have "unat w < 2 ^ 32" using unsigned_less [of w, where 'a = nat] by simp
  then have "unat w < 2 ^ 64" by simp
  then show ?thesis by (simp add: unsigned_ucast_eq take_bit_nat_eq_self)
qed

lemma ucast_zero_iff: "((ucast (w :: 32 word) :: 64 word) = 0) = (w = 0)"
  using unat_ucast_up [of w] by (metis unat_eq_0)

lemma of_nat64_zero: "n < 2 ^ 32 \<Longrightarrow> ((of_nat n :: 64 word) = 0) = (n = 0)"
proof -
  assume n: "n < 2 ^ 32"
  then have "n < 2 ^ 64" by simp
  then have "unat (of_nat n :: 64 word) = n" by (simp add: unat_of_nat)
  then show ?thesis by (metis unat_eq_0)
qed

lemma of_nat_down: "(ucast (of_nat n :: 64 word) :: 32 word) = of_nat n"
  by (metis (mono_tags, lifting) of_nat_take_bit ucast_back ucast_id unsigned_of_nat)

lemma unat_of_nat32: "n < 2 ^ 32 \<Longrightarrow> unat (of_nat n :: 32 word) = n"
  by (simp add: unat_of_nat)

lemma bufheader_insert:
  "vlen \<noteq> 0 \<Longrightarrow>
     reply_context_add_bufheader_in_reply (Some ctx) (Some k) (Some v) vlen
       = Some (ctx\<lparr>extra_headers :=
                 Some (AList.update k (g_byte_array_append g_byte_array_new v (ucast vlen))
                         (case extra_headers ctx of None \<Rightarrow> [] | Some t \<Rightarrow> t))\<rparr>)"
  by (cases "extra_headers ctx")
     (simp_all add: reply_context_add_bufheader_in_reply_def g_hash_table_insert_def
        g_hash_table_new_full_def Let_def)

lemma bufheader_shape:
  "\<exists>eh. reply_context_add_bufheader_in_reply (Some ctx) kp vp vlen
           = Some (ctx\<lparr>extra_headers := eh\<rparr>)
        \<and> (keys_unique ctx \<longrightarrow> (case eh of None \<Rightarrow> True | Some t \<Rightarrow> distinct (map fst t)))"
proof (cases "kp = None \<or> vp = None \<or> vlen = 0")
  case True
  then have "reply_context_add_bufheader_in_reply (Some ctx) kp vp vlen
               = Some (ctx\<lparr>extra_headers := extra_headers ctx\<rparr>)"
    by (auto simp add: reply_context_add_bufheader_in_reply_def split: option.splits)
  then show ?thesis
    by (intro exI [of _ "extra_headers ctx"]) (simp add: keys_unique_def)
next
  case False
  then obtain k v where kv: "kp = Some k" "vp = Some v" "vlen \<noteq> 0" by auto
  show ?thesis
    using bufheader_insert [OF kv(3), of ctx k v] kv(1,2)
    by (auto simp: keys_unique_def distinct_update split: option.splits)
qed

lemma bufheader_twice:
  assumes u: "keys_unique ctx" and n: "vlen \<noteq> 0"
  shows "\<exists>c t. reply_context_add_bufheader_in_reply
                 (reply_context_add_bufheader_in_reply (Some ctx) (Some k) vp1 vlen1)
                 (Some k) (Some v) vlen = Some c
           \<and> extra_headers c = Some t
           \<and> filter (\<lambda>e. fst e = k) t
               = [(k, g_byte_array_append g_byte_array_new v (ucast vlen))]
           \<and> filter (\<lambda>e. fst e \<noteq> k) t = filter (\<lambda>e. fst e \<noteq> k) (table_of ctx)
           \<and> req_ctx c = req_ctx ctx \<and> warning c = warning ctx
           \<and> header c = header ctx \<and> body c = body ctx"
proof -
  obtain eh where eh:
      "reply_context_add_bufheader_in_reply (Some ctx) (Some k) vp1 vlen1
         = Some (ctx\<lparr>extra_headers := eh\<rparr>)"
      "case eh of None \<Rightarrow> True | Some t \<Rightarrow> distinct (map fst t)"
    using bufheader_shape [of ctx "Some k" vp1 vlen1] u by blast
  have other: "filter (\<lambda>e. fst e \<noteq> k) (case eh of None \<Rightarrow> [] | Some t \<Rightarrow> t)
                 = filter (\<lambda>e. fst e \<noteq> k) (table_of ctx)"
  proof (cases "vp1 = None \<or> vlen1 = 0")
    case True
    then have "reply_context_add_bufheader_in_reply (Some ctx) (Some k) vp1 vlen1 = Some ctx"
      by (auto simp add: reply_context_add_bufheader_in_reply_def split: option.splits)
    with eh(1) have "extra_headers ctx = eh"
      by (metis option.inject reply_context_s.select_convs(2) reply_context_s.surjective
            reply_context_s.update_convs(2))
    then show ?thesis by (simp add: table_of_def)
  next
    case False
    then obtain v1 where v1: "vp1 = Some v1" "vlen1 \<noteq> 0" by auto
    have "eh = Some (AList.update k (g_byte_array_append g_byte_array_new v1 (ucast vlen1))
                       (table_of ctx))"
      using bufheader_insert [OF v1(2), of ctx k v1] eh(1) v1(1)
      by (metis option.inject reply_context_s.select_convs(2) reply_context_s.surjective
            reply_context_s.update_convs(2) table_of_def)
    then show ?thesis by (simp add: update_filter_other)
  qed
  let ?c1 = "ctx\<lparr>extra_headers := eh\<rparr>"
  let ?t = "AList.update k (g_byte_array_append g_byte_array_new v (ucast vlen))
              (case eh of None \<Rightarrow> [] | Some t \<Rightarrow> t)"
  have d: "distinct (map fst (case eh of None \<Rightarrow> [] | Some t \<Rightarrow> t))"
    using eh(2) by (cases eh) simp_all
  have "reply_context_add_bufheader_in_reply (Some ?c1) (Some k) (Some v) vlen
          = Some (?c1\<lparr>extra_headers := Some ?t\<rparr>)"
    using bufheader_insert [OF n, of ?c1 k v] by simp
  then show ?thesis
    using eh(1) other d by (simp add: update_filter_key update_filter_other)
qed

lemma header_as_buf:
  "reply_context_add_header_in_reply X kp vp
     = reply_context_add_bufheader_in_reply X kp
         (case vp of None \<Rightarrow> None | Some v \<Rightarrow> data v)
         (case vp of None \<Rightarrow> 0 | Some v \<Rightarrow> ucast (len v))"
  by (simp add: reply_context_add_header_in_reply_def reply_context_add_bufheader_in_reply_def
        split: option.splits)

lemma strheader_as_buf:
  "reply_context_add_strheader_in_reply X kp vp
     = reply_context_add_bufheader_in_reply X kp
         (case vp of None \<Rightarrow> None | Some v \<Rightarrow> Some (bytes_of v))
         (case vp of None \<Rightarrow> 0 | Some v \<Rightarrow> strlen v)"
  by (simp add: reply_context_add_strheader_in_reply_def reply_context_add_bufheader_in_reply_def
        split: option.splits)

lemma copy_of_gba:
  "len v \<noteq> 0 \<Longrightarrow> length d = unat (len v) \<Longrightarrow>
     g_byte_array_append g_byte_array_new d (ucast (ucast (len v) :: 64 word))
       = \<lparr>data = Some d, len = len v\<rparr>"
  by (simp add: g_byte_array_append_def g_byte_array_new_def ucast_back)

lemma copy_of_string:
  assumes "s \<noteq> []" and "length s < 2 ^ 32"
  shows "g_byte_array_append g_byte_array_new (bytes_of s) (ucast (strlen s))
           = \<lparr>data = Some (bytes_of s), len = of_nat (length s)\<rparr>"
proof -
  have u: "unat (of_nat (length s) :: 32 word) = length s"
    using assms(2) by (rule unat_of_nat32)
  then have "(of_nat (length s) :: 32 word) \<noteq> 0"
    using assms(1) by (metis length_0_conv unat_0)
  then show ?thesis
    using u by (simp add: g_byte_array_append_def g_byte_array_new_def strlen_def of_nat_down
                  bytes_of_def)
qed

text \<open>
  Claim C7. In a context whose table has no key twice, adding a header under a key \<open>k\<close>
  and then adding a second value under \<open>k\<close> leaves exactly one entry for \<open>k\<close>, which holds
  a copy of the second value; the entries of the other keys and the rest of the context
  are as before. This holds for \<^verbatim>\<open>reply_context_add_header_in_reply\<close> with a second value
  that is a well-formed byte array of non-zero length, and for
  \<^verbatim>\<open>reply_context_add_strheader_in_reply\<close> with a second value that is a non-empty string
  whose length fits the \<^verbatim>\<open>guint\<close> length of a byte array. A call without a key, without a
  value or with a value of length zero returns the context as it was.
\<close>

theorem reply_context_add_header_overwrites:
  assumes "keys_unique ctx"
      and "data v2 = Some d2" and "len v2 \<noteq> 0" and "length d2 = unat (len v2)"
      and "s2 \<noteq> []" and "length s2 < 2 ^ 32"
  shows "(\<exists>c t. reply_context_add_header_in_reply
                   (reply_context_add_header_in_reply (Some ctx) (Some k) v1) (Some k) (Some v2)
                 = Some c
            \<and> extra_headers c = Some t
            \<and> filter (\<lambda>e. fst e = k) t = [(k, \<lparr>data = Some d2, len = len v2\<rparr>)]
            \<and> filter (\<lambda>e. fst e \<noteq> k) t = filter (\<lambda>e. fst e \<noteq> k) (table_of ctx)
            \<and> req_ctx c = req_ctx ctx \<and> warning c = warning ctx
            \<and> header c = header ctx \<and> body c = body ctx)
       \<and> (\<exists>c t. reply_context_add_strheader_in_reply
                   (reply_context_add_strheader_in_reply (Some ctx) (Some k) s1) (Some k) (Some s2)
                 = Some c
            \<and> extra_headers c = Some t
            \<and> filter (\<lambda>e. fst e = k) t
                = [(k, \<lparr>data = Some (bytes_of s2), len = of_nat (length s2)\<rparr>)]
            \<and> filter (\<lambda>e. fst e \<noteq> k) t = filter (\<lambda>e. fst e \<noteq> k) (table_of ctx)
            \<and> req_ctx c = req_ctx ctx \<and> warning c = warning ctx
            \<and> header c = header ctx \<and> body c = body ctx)
       \<and> reply_context_add_header_in_reply ctxp None vp = ctxp
       \<and> reply_context_add_header_in_reply ctxp kp None = ctxp
       \<and> reply_context_add_header_in_reply ctxp kp (Some (v\<lparr>len := 0\<rparr>)) = ctxp
       \<and> reply_context_add_header_in_reply ctxp kp (Some (v\<lparr>data := None\<rparr>)) = ctxp
       \<and> reply_context_add_strheader_in_reply ctxp None sp = ctxp
       \<and> reply_context_add_strheader_in_reply ctxp kp None = ctxp
       \<and> reply_context_add_strheader_in_reply ctxp kp (Some []) = ctxp
       \<and> reply_context_add_bufheader_in_reply ctxp kp bp 0 = ctxp"
proof -
  have n1: "(ucast (len v2) :: 64 word) \<noteq> 0"
    using assms(3) by (simp add: ucast_zero_iff)
  have n2: "strlen s2 \<noteq> 0"
    using assms(5,6) by (simp add: strlen_def of_nat64_zero)
  have a: "\<exists>c t. reply_context_add_header_in_reply
                   (reply_context_add_header_in_reply (Some ctx) (Some k) v1) (Some k) (Some v2)
                 = Some c
            \<and> extra_headers c = Some t
            \<and> filter (\<lambda>e. fst e = k) t = [(k, \<lparr>data = Some d2, len = len v2\<rparr>)]
            \<and> filter (\<lambda>e. fst e \<noteq> k) t = filter (\<lambda>e. fst e \<noteq> k) (table_of ctx)
            \<and> req_ctx c = req_ctx ctx \<and> warning c = warning ctx
            \<and> header c = header ctx \<and> body c = body ctx"
    using bufheader_twice [OF assms(1) n1, of k _ _ d2] assms(2)
    by (simp add: header_as_buf copy_of_gba [OF assms(3,4)])
  have b: "\<exists>c t. reply_context_add_strheader_in_reply
                   (reply_context_add_strheader_in_reply (Some ctx) (Some k) s1) (Some k) (Some s2)
                 = Some c
            \<and> extra_headers c = Some t
            \<and> filter (\<lambda>e. fst e = k) t
                = [(k, \<lparr>data = Some (bytes_of s2), len = of_nat (length s2)\<rparr>)]
            \<and> filter (\<lambda>e. fst e \<noteq> k) t = filter (\<lambda>e. fst e \<noteq> k) (table_of ctx)
            \<and> req_ctx c = req_ctx ctx \<and> warning c = warning ctx
            \<and> header c = header ctx \<and> body c = body ctx"
    using bufheader_twice [OF assms(1) n2, of k _ _ "bytes_of s2"]
    by (simp add: strheader_as_buf copy_of_string [OF assms(5,6)])
  have c: "reply_context_add_header_in_reply ctxp None vp = ctxp"
      "reply_context_add_header_in_reply ctxp kp None = ctxp"
      "reply_context_add_header_in_reply ctxp kp (Some (v\<lparr>len := 0\<rparr>)) = ctxp"
      "reply_context_add_header_in_reply ctxp kp (Some (v\<lparr>data := None\<rparr>)) = ctxp"
      "reply_context_add_strheader_in_reply ctxp None sp = ctxp"
      "reply_context_add_strheader_in_reply ctxp kp None = ctxp"
      "reply_context_add_strheader_in_reply ctxp kp (Some []) = ctxp"
      "reply_context_add_bufheader_in_reply ctxp kp bp 0 = ctxp"
    by (simp_all add: reply_context_add_header_in_reply_def
          reply_context_add_strheader_in_reply_def reply_context_add_bufheader_in_reply_def
          strlen_def split: option.splits)
  show ?thesis using a b c by blast
qed

theorem reply_context_add_header_overwrites_witness:
  "keys_unique ctx_example
   \<and> reply_context_add_header_in_reply
       (reply_context_add_header_in_reply (Some ctx_example) (Some ''K'')
          (Some \<lparr>data = Some [1], len = 1\<rparr>))
       (Some ''K'') (Some \<lparr>data = Some [5, 6], len = 2\<rparr>)
     = Some (ctx_example\<lparr>extra_headers := Some [(''K'', \<lparr>data = Some [5, 6], len = 2\<rparr>)]\<rparr>)
   \<and> reply_context_add_strheader_in_reply
       (reply_context_add_strheader_in_reply (Some ctx_example) (Some ''K'') (Some ''old''))
       (Some ''K'') (Some ''ab'')
     = Some (ctx_example\<lparr>extra_headers := Some [(''K'', \<lparr>data = Some [97, 98], len = 2\<rparr>)]\<rparr>)"
proof -
  have h1: "keys_unique ctx_example"
    by (simp add: keys_unique_def ctx_example_def)
  have h2: "data \<lparr>data = Some [5, 6 :: guint8], len = 2\<rparr> = Some [5, 6]" by simp
  have h3: "len \<lparr>data = Some [5, 6 :: guint8], len = 2\<rparr> \<noteq> 0" by simp
  have h4: "length [5, 6 :: guint8] = unat (len \<lparr>data = Some [5, 6 :: guint8], len = 2\<rparr>)"
    by simp
  have h5: "''ab'' \<noteq> []" by simp
  have h6: "length ''ab'' < 2 ^ 32" by simp
  have g: ?thesis
    by (simp add: keys_unique_def reply_context_add_header_in_reply_def
          reply_context_add_strheader_in_reply_def reply_context_add_bufheader_in_reply_def
          strlen_def g_hash_table_new_full_def g_hash_table_insert_def g_byte_array_append_def
          g_byte_array_new_def bytes_of_def ctx_example_def)
  show ?thesis
    using reply_context_add_header_overwrites [OF h1 h2 h3 h4 h5 h6]
    apply -
    apply (rule g)
    done
qed

section \<open>Properties of the registry\<close>

lemma register_chain:
  "BEACON_MSGHANDLER (snd (snd (register E S D r err srv)))
     = (case entry_of S r of None \<Rightarrow> [] | Some e \<Rightarrow> [e]) @ BEACON_MSGHANDLER srv"
proof (cases r)
  case (Simple n m h)
  then show ?thesis
    by (cases n; cases m; cases h) (simp_all add: message_handler_add_def)
next
  case (Tagged n m h tags)
  then show ?thesis
    by (cases n; cases m; cases h) (simp_all add: message_handler_add_v2_def Let_def)
qed

lemma register_rc:
  "fst (register E S D r err srv) = (case entry_of S r of None \<Rightarrow> 0 | Some e \<Rightarrow> 1)"
proof (cases r)
  case (Simple n m h)
  then show ?thesis
    by (cases n; cases m; cases h) (simp_all add: message_handler_add_def)
next
  case (Tagged n m h tags)
  then show ?thesis
    by (cases n; cases m; cases h) (simp_all add: message_handler_add_v2_def Let_def)
qed

lemma register_all_chain:
  "BEACON_MSGHANDLER (snd (snd (register_all E S D rs err srv)))
     = rev (List.map_filter (entry_of S) rs) @ BEACON_MSGHANDLER srv"
proof (induction rs arbitrary: err srv)
  case Nil
  show ?case by (simp add: List.map_filter_simps)
next
  case (Cons r rs)
  obtain rc err1 srv1 where r: "register E S D r err srv = (rc, err1, srv1)"
    by (cases "register E S D r err srv") auto
  have c: "BEACON_MSGHANDLER srv1
             = (case entry_of S r of None \<Rightarrow> [] | Some e \<Rightarrow> [e]) @ BEACON_MSGHANDLER srv"
    using register_chain [of E S D r err srv] r by simp
  show ?case
    using Cons.IH [of err1 srv1] r c
    by (auto simp add: List.map_filter_simps split: prod.splits option.splits)
qed

subsection \<open>Registration order\<close>

text \<open>
  Claim C3. A successful registration of either kind puts its entry in front of the
  chain, so that after any sequence of registrations the chain holds the entries of the
  successful ones, the latest first, in front of what it held before. With the dispatch
  that takes the first entry of the chain whose matcher accepts the input, an input that
  the matchers of A and of B accept, B registered after A, is given to B.
\<close>

theorem registration_prepends_and_last_wins:
  assumes "entry_of S ra = Some ea" and "entry_of S rb = Some eb"
      and "matcher ea = Some ma" and "matcher eb = Some mb" and "ma x" and "mb x"
      and "register E S D ra err srv = (rca, erra, srva)"
      and "register E S D rb erra srva = (rcb, errb, srvb)"
  shows "rca = 1 \<and> rcb = 1
         \<and> BEACON_MSGHANDLER srva = ea # BEACON_MSGHANDLER srv
         \<and> BEACON_MSGHANDLER srvb = eb # ea # BEACON_MSGHANDLER srv
         \<and> dispatch srva x = Some ea
         \<and> dispatch srvb x = Some eb
         \<and> BEACON_MSGHANDLER (snd (snd (register_all E S D rs err srv)))
             = rev (List.map_filter (entry_of S) rs) @ BEACON_MSGHANDLER srv"
proof -
  have a: "BEACON_MSGHANDLER srva = ea # BEACON_MSGHANDLER srv"
    using register_chain [of E S D ra err srv] assms(1,7) by simp
  have b: "BEACON_MSGHANDLER srvb = eb # BEACON_MSGHANDLER srva"
    using register_chain [of E S D rb erra srva] assms(2,8) by simp
  have rc: "rca = 1" "rcb = 1"
    using register_rc [of E S D ra err srv] register_rc [of E S D rb erra srva] assms(1,2,7,8)
    by simp_all
  show ?thesis
    using a b rc assms(3-6) by (simp add: dispatch_def register_all_chain)
qed

theorem registration_prepends_and_last_wins_witness:
  "entry_of 32 reg_A = Some entry_A \<and> entry_of 32 reg_B = Some entry_B
   \<and> match_any 3 \<and> match_small 3
   \<and> register GSETERROR_new 32 tag_copy reg_A (Err_slot None) srv_empty
       = (1, Err_slot None, \<lparr>BEACON_MSGHANDLER = [entry_A], serv_tags = None\<rparr>)
   \<and> register GSETERROR_new 32 tag_copy reg_B (Err_slot None)
         \<lparr>BEACON_MSGHANDLER = [entry_A], serv_tags = None\<rparr>
       = (1, Err_slot None, \<lparr>BEACON_MSGHANDLER = [entry_B, entry_A], serv_tags = Some [4, 2]\<rparr>)
   \<and> dispatch \<lparr>BEACON_MSGHANDLER = [entry_B, entry_A], serv_tags = Some [4, 2 :: nat]\<rparr> 3
       = Some entry_B"
proof -
  have h1: "entry_of 32 reg_A = Some entry_A"
    by (simp add: reg_A_def entry_A_def strncpy_def)
  have h2: "entry_of 32 reg_B = Some entry_B"
    by (simp add: reg_B_def entry_B_def strncpy_def)
  have h3: "matcher entry_A = Some match_any" by (simp add: entry_A_def)
  have h4: "matcher entry_B = Some match_small" by (simp add: entry_B_def)
  have h5: "match_any 3" by (simp add: match_any_def)
  have h6: "match_small 3" by (simp add: match_small_def)
  have h7: "register GSETERROR_new 32 tag_copy reg_A (Err_slot None) srv_empty
              = (1, Err_slot None, \<lparr>BEACON_MSGHANDLER = [entry_A], serv_tags = None\<rparr>)"
    by (simp add: reg_A_def entry_A_def srv_empty_def message_handler_add_def strncpy_def)
  have h8: "register GSETERROR_new 32 tag_copy reg_B (Err_slot None)
                \<lparr>BEACON_MSGHANDLER = [entry_A], serv_tags = None\<rparr>
              = (1, Err_slot None,
                 \<lparr>BEACON_MSGHANDLER = [entry_B, entry_A], serv_tags = Some [4, 2]\<rparr>)"
    by (simp add: reg_B_def entry_B_def message_handler_add_v2_def strncpy_def tag_copy_def)
  show ?thesis
    using registration_prepends_and_last_wins [OF h1 h2 h3 h4 h5 h6 h7 h8]
    by (simp add: h1 h2 h5 h6 h7 h8)
qed

subsection \<open>Missing arguments\<close>

text \<open>
  Claim C5. A registration of either kind without a name, without a matcher or without a
  handler returns 0, reports the invalid parameter through \<^verbatim>\<open>GSETERROR\<close> and leaves the
  server's state, the chain of handlers and the collection of tags, as it was.
\<close>

theorem registration_rejects_missing_argument:
  "message_handler_add E S None m h err srv = (0, E err ''Invalid parameter'', srv)
   \<and> message_handler_add E S n None h err srv = (0, E err ''Invalid parameter'', srv)
   \<and> message_handler_add E S n m None err srv = (0, E err ''Invalid parameter'', srv)
   \<and> message_handler_add_v2 E S D None m h2 tags err srv = (0, E err ''Invalid parameters'', srv)
   \<and> message_handler_add_v2 E S D n None h2 tags err srv = (0, E err ''Invalid parameters'', srv)
   \<and> message_handler_add_v2 E S D n m None tags err srv = (0, E err ''Invalid parameters'', srv)"
  by (simp add: message_handler_add_def message_handler_add_v2_def split: option.splits)

section \<open>Properties of the request context\<close>

text \<open>The allocator's addresses lie above every address in use.\<close>

lemma fold_max_init: "fold max xs (a :: nat) = max a (fold max xs 0)"
proof (induction xs arbitrary: a)
  case Nil
  show ?case by simp
next
  case (Cons x xs)
  have "fold max (x # xs) a = max (max x a) (fold max xs 0)"
    using Cons.IH [of "max x a"] by simp
  also have "\<dots> = max a (max x (fold max xs 0))" by (simp add: max.assoc max.left_commute max.commute)
  also have "\<dots> = max a (fold max (x # xs) 0)"
    using Cons.IH [of "x"] by simp
  finally show ?case .
qed

lemma fold_max_upper: "x \<in> set xs \<Longrightarrow> x \<le> fold max xs (a :: nat)"
proof (induction xs arbitrary: a)
  case Nil
  then show ?case by simp
next
  case (Cons y ys)
  show ?case
  proof (cases "x = y")
    case True
    have "fold max (y # ys) a = max (max y a) (fold max ys 0)"
      using fold_max_init [of ys "max y a"] by simp
    with True show ?thesis by simp
  next
    case False
    with Cons.prems have "x \<in> set ys" by simp
    from Cons.IH [OF this, of "max y a"] show ?thesis by simp
  qed
qed

lemma keys_below: "q \<in> fst ` set h \<Longrightarrow> q < Suc (fold max (map fst h) 0)"
  using fold_max_upper [of q "map fst h" 0] by (auto simp: less_Suc_eq_le)

lemma g_free_absent: "q \<notin> fst ` set h \<Longrightarrow> g_free q h = h"
  by (induction h) (auto simp: g_free_def)

lemma create_explicit:
  "request_context_create now gp gs afs sz fd_arg fd_peer h =
     (let p = Suc (fold max (map fst h) 0)
      in (p, (Suc (Suc p),
              Addr_info (case fd_peer of
                           Some a \<Rightarrow> a
                         | None \<Rightarrow> (case gs fd_arg 0 sz of (ss, n) \<Rightarrow> afs 0 ss n)))
           # (Suc p, Addr_info (case gp fd_arg 0 sz of (ss, n) \<Rightarrow> afs 0 ss n))
           # (p, Request_context \<lparr>tv_start = now, local_addr = Suc (Suc p),
                                  remote_addr = Suc p, fd = fd_arg, request = None\<rparr>)
           # h))"
proof -
  let ?p = "Suc (fold max (map fst h) 0)"
  have m1: "fold max (map fst h) ?p = ?p"
    using fold_max_init [of "map fst h" ?p] by simp
  have m2: "fold max (map fst h) (Suc ?p) = Suc ?p"
    using fold_max_init [of "map fst h" "Suc ?p"] by simp
  show ?thesis
    by (cases fd_peer)
       (simp_all add: request_context_create_def g_malloc0_def store_def Let_def m1 m2
          request_context_zero_def split: prod.splits)
qed


lemma clear_created:
  assumes "p = Suc (fold max (map fst h) 0)"
  shows "request_context_clear p
           ((Suc (Suc p), Addr_info L) # (Suc p, Addr_info R)
            # (p, Request_context \<lparr>tv_start = now, local_addr = Suc (Suc p),
                                   remote_addr = Suc p, fd = fd_arg, request = rq\<rparr>) # h)
         = Some ((p, Request_context request_context_zero) # h)"
proof -
  have a: "Suc (Suc p) \<notin> fst ` set h" "Suc p \<notin> fst ` set h" "p \<notin> fst ` set h"
    using keys_below [of _ h] assms by fastforce+
  have f: "g_free (Suc (Suc p)) h = h" "g_free (Suc p) h = h"
    using a by (simp_all add: g_free_absent)
  have "\<And>q. g_free q h = filter (\<lambda>e. fst e \<noteq> q) h" by (simp add: g_free_def)
  with f have ff: "filter (\<lambda>e. fst e \<noteq> Suc (Suc p)) h = h" "filter (\<lambda>e. fst e \<noteq> Suc p) h = h"
    by simp_all
  have p0: "p \<noteq> 0" using assms by simp
  show ?thesis
    using p0 by (simp add: request_context_clear_def g_free_def store_def ff)
qed

text \<open>
  Claim C10. \<^verbatim>\<open>request_context_create\<close> returns a context that holds the descriptor it was
  given, the clock reading and no request, and whose local and remote address records are
  two distinct blocks, not \<^verbatim>\<open>NULL\<close> and not in use before the call. The remote record
  holds what the resolver made of a zero-filled record, the local record the address given
  by the caller or, without one, what the resolver made of a zero-filled record: a
  resolver that writes nothing leaves the record zero-filled. \<^verbatim>\<open>request_context_clear\<close>
  on the created context frees exactly these two blocks and zeroes the context, which
  stays allocated; the blocks in use before the creation are untouched.
\<close>

theorem request_context_create_then_clear:
  assumes "request_context_create now gp gs afs sz fd_arg fd_peer (h :: ('ai::zero, 'm) heap)
             = (p, h')"
  shows "\<exists>c L R.
           h' = (local_addr c, Addr_info L) # (remote_addr c, Addr_info R)
                # (p, Request_context c) # h
         \<and> fd c = fd_arg \<and> tv_start c = now \<and> request c = None
         \<and> p \<noteq> 0 \<and> local_addr c \<noteq> 0 \<and> remote_addr c \<noteq> 0
         \<and> distinct [p, local_addr c, remote_addr c]
         \<and> p \<notin> fst ` set h \<and> local_addr c \<notin> fst ` set h \<and> remote_addr c \<notin> fst ` set h
         \<and> map_of h' p = Some (Request_context c)
         \<and> map_of h' (local_addr c) = Some (Addr_info L)
         \<and> map_of h' (remote_addr c) = Some (Addr_info R)
         \<and> R = (case gp fd_arg 0 sz of (ss, n) \<Rightarrow> afs 0 ss n)
         \<and> L = (case fd_peer of
                  Some a \<Rightarrow> a
                | None \<Rightarrow> (case gs fd_arg 0 sz of (ss, n) \<Rightarrow> afs 0 ss n))
         \<and> ((case gp fd_arg 0 sz of (ss, n) \<Rightarrow> afs 0 ss n) = 0 \<longrightarrow> R = 0)
         \<and> (fd_peer = None \<and> (case gs fd_arg 0 sz of (ss, n) \<Rightarrow> afs 0 ss n) = 0 \<longrightarrow> L = 0)
         \<and> (\<exists>h''. request_context_clear p h' = Some h''
               \<and> h'' = (p, Request_context request_context_zero) # h
               \<and> fst ` set h'' = fst ` set h' - {local_addr c, remote_addr c}
               \<and> map_of h'' p = Some (Request_context request_context_zero))"
proof -
  let ?p = "Suc (fold max (map fst h) 0)"
  let ?L = "case fd_peer of
              Some a \<Rightarrow> a
            | None \<Rightarrow> (case gs fd_arg 0 sz of (ss, n) \<Rightarrow> afs 0 ss n)"
  let ?R = "case gp fd_arg 0 sz of (ss, n) \<Rightarrow> afs 0 ss n"
  let ?c = "\<lparr>tv_start = now, local_addr = Suc (Suc ?p), remote_addr = Suc ?p,
              fd = fd_arg, request = None :: 'm option\<rparr>"
  have p: "p = ?p"
    and h': "h' = (Suc (Suc ?p), Addr_info ?L) # (Suc ?p, Addr_info ?R)
                  # (?p, Request_context ?c) # h"
    using assms by (auto simp add: create_explicit Let_def)
  have fresh: "?p \<notin> fst ` set h" "Suc ?p \<notin> fst ` set h" "Suc (Suc ?p) \<notin> fst ` set h"
    using keys_below [of _ h] by fastforce+
  have cl: "request_context_clear p h' = Some ((p, Request_context request_context_zero) # h)"
    unfolding h' p by (rule clear_created) simp
  have keys: "fst ` set ((p, Request_context request_context_zero) # h)
                = fst ` set h' - {Suc (Suc ?p), Suc ?p}"
    using fresh unfolding h' p by auto
  show ?thesis
    apply (rule exI [of _ ?c])
    apply (rule exI [of _ ?L])
    apply (rule exI [of _ ?R])
    using fresh cl keys
    apply (simp add: h' p)
    done
qed

theorem request_context_create_then_clear_witness:
  "request_context_create (11, 22) getname_fails getname_fails addrinfo_keeps 128 7 None heap_example
     = (6, [(8, Addr_info 0), (7, Addr_info 0),
            (6, Request_context \<lparr>tv_start = (11, 22), local_addr = 8, remote_addr = 7,
                                  fd = 7, request = None\<rparr>),
            (5, Addr_info 9)])
   \<and> request_context_clear 6
        [(8, Addr_info 0), (7, Addr_info 0),
         (6, Request_context \<lparr>tv_start = (11, 22), local_addr = 8, remote_addr = 7,
                               fd = 7, request = None\<rparr>),
         (5, Addr_info (9 :: nat))]
     = Some [(6, Request_context (request_context_zero :: unit request_context_s)),
             (5, Addr_info 9)]"
proof -
  have h: "request_context_create (11, 22) getname_fails getname_fails addrinfo_keeps 128 7 None
             heap_example
           = (6, [(8, Addr_info 0), (7, Addr_info 0),
                  (6, Request_context \<lparr>tv_start = (11, 22), local_addr = 8, remote_addr = 7,
                                        fd = 7, request = None :: unit option\<rparr>),
                  (5, Addr_info 9)])"
    by (simp add: request_context_create_def g_malloc0_def store_def heap_example_def
          getname_fails_def addrinfo_keeps_def request_context_zero_def)
  have g: ?thesis
    by (simp add: h request_context_clear_def g_free_def store_def)
  show ?thesis
    using request_context_create_then_clear [OF h]
    apply -
    apply (rule g)
    done
qed

end
